theory Spec2Isabelle
  imports Main "HOL-Library.AList"
begin

section \<open>Retrieval question answering: \<^verbatim>\<open>langchain/chains/retrieval_qa/base.py\<close>\<close>

text \<open>
  The module defines an abstract chain \<^verbatim>\<open>BaseRetrievalQA\<close> and its two concrete
  subclasses \<^verbatim>\<open>RetrievalQA\<close> (documents from a retriever) and \<^verbatim>\<open>VectorDBQA\<close>
  (documents from a vector store).  The retriever, the vector store, the language model
  and the chain that combines documents are collaborators: objects whose methods may
  read and change state that this module never sees.  They are modelled as functions
  over an arbitrary world \<open>'w\<close>, and every call this module makes to one of them is
  appended to a log, so that "which capability was called, with which arguments, how
  often" is a statement about the log.
\<close>

subsection \<open>Values, documents, exceptions\<close>

text \<open>Python values that travel through keyword dictionaries (\<^verbatim>\<open>Dict[str, Any]\<close>).\<close>

datatype pyval =
    VNone
  | VBool bool
  | VInt int
  | VStr string
  | VDict "(string \<times> pyval) list"

type_synonym pydict = "(string \<times> pyval) list"

record Document =
  page_content :: string
  metadata :: pydict

text \<open>One entry of a pydantic \<^verbatim>\<open>ValidationError\<close>.\<close>

datatype error_item =
    field_required string
  | type_error string
  | extra_forbidden string
  | root_error string

text \<open>
  The exceptions that leave this module.  \<open>KeyError\<close> carries the missing key,
  \<open>ValueError\<close> its message, \<open>TypeError_multiple_values\<close> the keyword that a call
  received twice, \<open>ValidationError\<close> the errors pydantic collected, and
  \<open>BackendFailure\<close> stands for whatever else a collaborator raises.
\<close>

datatype py_error =
    KeyError string
  | ValueError string
  | TypeError_multiple_values string
  | ValidationError "error_item list"
  | BackendFailure string

subsection \<open>The world, the call log, the collaborators\<close>

datatype call =
    Call_get_relevant_texts string
  | Call_similarity_search string int pydict
  | Call_max_marginal_relevance_search string int pydict
  | Call_combine_docs "Document list" string
  | Call_llm string

record 'w state =
  calls :: "call list"
  world :: 'w

text \<open>A capability of a collaborator: it returns or raises, and may change the world.\<close>

type_synonym ('w, 'a) capability = "'w \<Rightarrow> (py_error + 'a) \<times> 'w"

definition invoke :: "call \<Rightarrow> ('w, 'a) capability \<Rightarrow> 'w state \<Rightarrow> (py_error + 'a) \<times> 'w state" where
  "invoke c m s =
     (case m (world s) of (r, w') \<Rightarrow> (r, \<lparr>calls = calls s @ [c], world = w'\<rparr>))"

text \<open>
  A call \<^verbatim>\<open>f(..., name=v, **kw)\<close>: Python merges the explicit keyword into the
  dictionary before \<open>f\<close> is entered and raises \<^verbatim>\<open>TypeError\<close> when \<open>kw\<close> already has
  the name.  \<open>f\<close> is not called then.
\<close>

definition duplicate_keyword :: "string \<Rightarrow> (string \<times> 'v) list \<Rightarrow> bool" where
  "duplicate_keyword name kw = (name \<in> set (map fst kw))"

record 'w BaseRetriever =
  get_relevant_texts :: "string \<Rightarrow> ('w, Document list) capability"

record 'w VectorStore =
  similarity_search :: "string \<Rightarrow> int \<Rightarrow> pydict \<Rightarrow> ('w, Document list) capability"
  max_marginal_relevance_search :: "string \<Rightarrow> int \<Rightarrow> pydict \<Rightarrow> ('w, Document list) capability"

subsection \<open>The chain that combines documents\<close>

record PromptTemplate =
  input_variables :: "string list"
  template :: string

record 'w LLMChain =
  llm :: "string \<Rightarrow> ('w, string) capability"
  prompt :: PromptTemplate

record 'w StuffDocumentsChain =
  llm_chain :: "'w LLMChain"
  document_variable_name :: string
  document_prompt :: PromptTemplate

text \<open>
  A \<^verbatim>\<open>BaseCombineDocumentsChain\<close> is either the \<^verbatim>\<open>StuffDocumentsChain\<close> that
  \<^verbatim>\<open>from_llm\<close> builds, or any other chain, known only by its \<^verbatim>\<open>combine_docs\<close>.
\<close>

datatype 'w combine_chain =
    Stuff "'w StuffDocumentsChain"
  | Other_chain "Document list \<Rightarrow> string \<Rightarrow> ('w, string \<times> pydict) capability"

text \<open>
  Modelled from the spec: \<^verbatim>\<open>PromptTemplate.format\<close> (langchain/prompts is not under
  src/).  Each placeholder \<^verbatim>\<open>{name}\<close> of the template is replaced by the text bound to
  \<open>name\<close>; the second argument holds the name read so far while inside braces.
\<close>

fun format_template :: "(string \<times> string) list \<Rightarrow> string option \<Rightarrow> string \<Rightarrow> string" where
  "format_template env None [] = []"
| "format_template env (Some n) [] = CHR ''{'' # n"
| "format_template env None (c # cs) =
     (if c = CHR ''{'' then format_template env (Some []) cs
      else c # format_template env None cs)"
| "format_template env (Some n) (c # cs) =
     (if c = CHR ''}''
      then (case map_of env n of
              Some v \<Rightarrow> v
            | None \<Rightarrow> CHR ''{'' # n @ [CHR ''}'']) @ format_template env None cs
      else format_template env (Some (n @ [c])) cs)"

text \<open>
  Modelled from the spec: \<^verbatim>\<open>PromptTemplate.format(**env)\<close>, the same substitution
  started outside braces on the template of the prompt.
\<close>

definition format_prompt :: "PromptTemplate \<Rightarrow> (string \<times> string) list \<Rightarrow> string" where
  "format_prompt p env = format_template env None (template p)"

text \<open>Python's \<^verbatim>\<open>sep.join(xs)\<close>.\<close>

fun join :: "string \<Rightarrow> string list \<Rightarrow> string" where
  "join sep [] = []"
| "join sep [x] = x"
| "join sep (x # y # ys) = x @ sep @ join sep (y # ys)"

text \<open>
  Modelled from the spec: the DocumentAssembler (\<^verbatim>\<open>StuffDocumentsChain\<close>,
  langchain/chains/combine_documents/stuff.py is not under src/).  Each document's text
  body is formatted with the document prompt, and the results are joined, in the order
  received, with a double newline.
\<close>

definition assemble :: "'w StuffDocumentsChain \<Rightarrow> Document list \<Rightarrow> string" where
  "assemble c docs =
     join [CHR 0x0A, CHR 0x0A]
       (map (\<lambda>d. format_prompt (document_prompt c) [(''page_content'', page_content d)]) docs)"

text \<open>
  Modelled from the spec: the AnswerSynthesizer (\<^verbatim>\<open>StuffDocumentsChain.combine_docs\<close>
  over \<^verbatim>\<open>LLMChain\<close>, neither under src/).  It assembles the context, substitutes
  context and question into the prompt template, calls the model's completion once and
  returns its raw text; the auxiliary mapping is empty.
\<close>

definition synthesize ::
  "'w StuffDocumentsChain \<Rightarrow> Document list \<Rightarrow> string \<Rightarrow> 'w state
     \<Rightarrow> (py_error + string \<times> pydict) \<times> 'w state" where
  "synthesize c docs question s =
     (let text = format_prompt (prompt (llm_chain c))
                   [(document_variable_name c, assemble c docs), (''question'', question)]
      in case invoke (Call_llm text) (llm (llm_chain c) text) s of
           (Inl e, s') \<Rightarrow> (Inl e, s')
         | (Inr answer, s') \<Rightarrow> (Inr (answer, []), s'))"

text \<open>\<^verbatim>\<open>chain.combine_docs(docs, question=question)\<close>, as \<^verbatim>\<open>_call\<close> invokes it.\<close>

fun combine_docs ::
  "'w combine_chain \<Rightarrow> Document list \<Rightarrow> string \<Rightarrow> 'w state
     \<Rightarrow> (py_error + string \<times> pydict) \<times> 'w state" where
  "combine_docs (Stuff c) docs question s =
     synthesize c docs question (s\<lparr>calls := calls s @ [Call_combine_docs docs question]\<rparr>)"
| "combine_docs (Other_chain f) docs question s =
     invoke (Call_combine_docs docs question) (f docs question) s"

subsection \<open>\<^verbatim>\<open>BaseRetrievalQA\<close> and its subclasses\<close>

record 'w BaseRetrievalQA =
  combine_documents_chain :: "'w combine_chain"
  input_key :: string
  output_key :: string
  return_source_documents :: bool

record 'w RetrievalQA = "'w BaseRetrievalQA" +
  retriever :: "'w BaseRetriever"

record 'w VectorDBQA = "'w BaseRetrievalQA" +
  vectorstore :: "'w VectorStore"
  k :: int
  search_type :: string
  search_kwargs :: pydict

definition input_keys :: "('w, 'z) BaseRetrievalQA_scheme \<Rightarrow> string list" where
  "input_keys self = [input_key self]"

definition output_keys :: "('w, 'z) BaseRetrievalQA_scheme \<Rightarrow> string list" where
  "output_keys self =
     (let output_keys' = [output_key self]
      in if return_source_documents self then output_keys' @ [''source_documents'']
         else output_keys')"

text \<open>\<^verbatim>\<open>RetrievalQA._get_docs\<close>.\<close>

definition RetrievalQA_get_docs ::
  "'w RetrievalQA \<Rightarrow> string \<Rightarrow> 'w state \<Rightarrow> (py_error + Document list) \<times> 'w state" where
  "RetrievalQA_get_docs self question s =
     invoke (Call_get_relevant_texts question)
       (get_relevant_texts (retriever self) question) s"

text \<open>
  \<^verbatim>\<open>VectorDBQA._get_docs\<close>.  Both searches are called as
  \<^verbatim>\<open>search(question, k=self.k, **self.search_kwargs)\<close>.
\<close>

definition VectorDBQA_get_docs ::
  "'w VectorDBQA \<Rightarrow> string \<Rightarrow> 'w state \<Rightarrow> (py_error + Document list) \<times> 'w state" where
  "VectorDBQA_get_docs self question s =
     (if search_type self = ''similarity'' then
        (if duplicate_keyword ''k'' (search_kwargs self)
         then (Inl (TypeError_multiple_values ''k''), s)
         else invoke (Call_similarity_search question (k self) (search_kwargs self))
                (similarity_search (vectorstore self) question (k self) (search_kwargs self)) s)
      else if search_type self = ''mmr'' then
        (if duplicate_keyword ''k'' (search_kwargs self)
         then (Inl (TypeError_multiple_values ''k''), s)
         else invoke (Call_max_marginal_relevance_search question (k self) (search_kwargs self))
                (max_marginal_relevance_search (vectorstore self) question (k self)
                   (search_kwargs self)) s)
      else (Inl (ValueError (''search_type of '' @ search_type self @ '' not allowed.'')), s))"

text \<open>
  \<^verbatim>\<open>BaseRetrievalQA._call\<close>.  The abstract \<^verbatim>\<open>_get_docs\<close> is the first argument.
  The result is a Python dictionary: \<open>AList.update\<close> overwrites the value of a key that
  is already there and appends a new key otherwise, as a dictionary display does.
\<close>

datatype outval = Answer string | Source_documents "Document list"

definition BaseRetrievalQA_call ::
  "(('w, 'z) BaseRetrievalQA_scheme \<Rightarrow> string \<Rightarrow> 'w state
      \<Rightarrow> (py_error + Document list) \<times> 'w state)
   \<Rightarrow> ('w, 'z) BaseRetrievalQA_scheme \<Rightarrow> (string \<times> string) list \<Rightarrow> 'w state
   \<Rightarrow> (py_error + (string \<times> outval) list) \<times> 'w state" where
  "BaseRetrievalQA_call get_docs self inputs s =
     (case map_of inputs (input_key self) of
        None \<Rightarrow> (Inl (KeyError (input_key self)), s)
      | Some question \<Rightarrow>
          (case get_docs self question s of
             (Inl e, s1) \<Rightarrow> (Inl e, s1)
           | (Inr docs, s1) \<Rightarrow>
               (case combine_docs (combine_documents_chain self) docs question s1 of
                  (Inl e, s2) \<Rightarrow> (Inl e, s2)
                | (Inr (answer, _), s2) \<Rightarrow>
                    if return_source_documents self
                    then (Inr (AList.update ''source_documents'' (Source_documents docs)
                                 (AList.update (output_key self) (Answer answer) [])), s2)
                    else (Inr (AList.update (output_key self) (Answer answer) []), s2))))"

definition RetrievalQA_call ::
  "'w RetrievalQA \<Rightarrow> (string \<times> string) list \<Rightarrow> 'w state
     \<Rightarrow> (py_error + (string \<times> outval) list) \<times> 'w state" where
  "RetrievalQA_call = BaseRetrievalQA_call RetrievalQA_get_docs"

definition VectorDBQA_call ::
  "'w VectorDBQA \<Rightarrow> (string \<times> string) list \<Rightarrow> 'w state
     \<Rightarrow> (py_error + (string \<times> outval) list) \<times> 'w state" where
  "VectorDBQA_call = BaseRetrievalQA_call VectorDBQA_get_docs"

subsection \<open>Construction\<close>

text \<open>
  The classes are pydantic models: \<^verbatim>\<open>cls(**data)\<close> validates the keyword dictionary
  against the declared fields, and raises \<^verbatim>\<open>ValidationError\<close> with every error found.
  A keyword argument is a plain value or one of the collaborators.
\<close>

datatype 'w arg =
    Val pyval
  | Chain_obj "'w combine_chain"
  | Retriever_obj "'w BaseRetriever"
  | Store_obj "'w VectorStore"

type_synonym 'w kwargs = "(string \<times> 'w arg) list"

datatype ftype = T_str | T_int | T_bool | T_dict | T_chain | T_retriever | T_store

text \<open>
  What construction takes from code that is not under src/:
  \<^item> \<open>chain_fields\<close>, the names of the fields that the base class \<^verbatim>\<open>Chain\<close>
    (langchain/chains/base.py) declares, and \<open>chain_errors\<close>, the errors their
    validation reports on a keyword dictionary;
  \<^item> \<open>convert\<close>, the conversion pydantic attempts on a value that is not of the
    declared type of its field (\<open>None\<close>: no conversion, a type error);
  \<^item> \<open>get_prompt\<close>, the call \<^verbatim>\<open>PROMPT_SELECTOR.get_prompt(llm)\<close>, which returns the
    default prompt or raises;
  \<^item> \<open>LLMChain_raises\<close>, \<open>PromptTemplate_raises\<close> and \<open>StuffDocumentsChain_raises\<close>,
    the exception that the constructor of that class raises on the given arguments
    (\<open>None\<close>: it raises nothing and returns the object holding the arguments as its
    fields);
  \<^item> \<open>load_qa_chain\<close> (langchain/chains/question_answering), called as
    \<^verbatim>\<open>load_qa_chain(llm, chain_type=chain_type, **chain_type_kwargs)\<close>.
\<close>

record 'w framework =
  chain_fields :: "string list"
  chain_errors :: "'w kwargs \<Rightarrow> error_item list"
  convert :: "ftype \<Rightarrow> 'w arg \<Rightarrow> 'w arg option"
  get_prompt :: "(string \<Rightarrow> ('w, string) capability) \<Rightarrow> py_error + PromptTemplate"
  LLMChain_raises :: "(string \<Rightarrow> ('w, string) capability) \<Rightarrow> PromptTemplate \<Rightarrow> py_error option"
  PromptTemplate_raises :: "string list \<Rightarrow> string \<Rightarrow> py_error option"
  StuffDocumentsChain_raises :: "'w LLMChain \<Rightarrow> string \<Rightarrow> PromptTemplate \<Rightarrow> py_error option"
  load_qa_chain ::
    "(string \<Rightarrow> ('w, string) capability) \<Rightarrow> string \<Rightarrow> pydict \<Rightarrow> py_error + 'w combine_chain"

text \<open>A value of the declared type is taken as it is; any other goes through \<open>convert\<close>.\<close>

fun as_str :: "'w framework \<Rightarrow> 'w arg \<Rightarrow> string option" where
  "as_str F (Val (VStr x)) = Some x"
| "as_str F v = (case convert F T_str v of Some (Val (VStr x)) \<Rightarrow> Some x | _ \<Rightarrow> None)"

fun as_int :: "'w framework \<Rightarrow> 'w arg \<Rightarrow> int option" where
  "as_int F (Val (VInt x)) = Some x"
| "as_int F v = (case convert F T_int v of Some (Val (VInt x)) \<Rightarrow> Some x | _ \<Rightarrow> None)"

fun as_bool :: "'w framework \<Rightarrow> 'w arg \<Rightarrow> bool option" where
  "as_bool F (Val (VBool x)) = Some x"
| "as_bool F v = (case convert F T_bool v of Some (Val (VBool x)) \<Rightarrow> Some x | _ \<Rightarrow> None)"

fun as_dict :: "'w framework \<Rightarrow> 'w arg \<Rightarrow> pydict option" where
  "as_dict F (Val (VDict x)) = Some x"
| "as_dict F v = (case convert F T_dict v of Some (Val (VDict x)) \<Rightarrow> Some x | _ \<Rightarrow> None)"

fun as_chain :: "'w framework \<Rightarrow> 'w arg \<Rightarrow> 'w combine_chain option" where
  "as_chain F (Chain_obj x) = Some x"
| "as_chain F v = (case convert F T_chain v of Some (Chain_obj x) \<Rightarrow> Some x | _ \<Rightarrow> None)"

fun as_retriever :: "'w framework \<Rightarrow> 'w arg \<Rightarrow> 'w BaseRetriever option" where
  "as_retriever F (Retriever_obj x) = Some x"
| "as_retriever F v =
     (case convert F T_retriever v of Some (Retriever_obj x) \<Rightarrow> Some x | _ \<Rightarrow> None)"

fun as_store :: "'w framework \<Rightarrow> 'w arg \<Rightarrow> 'w VectorStore option" where
  "as_store F (Store_obj x) = Some x"
| "as_store F v = (case convert F T_store v of Some (Store_obj x) \<Rightarrow> Some x | _ \<Rightarrow> None)"

text \<open>
  One declared field: its value in the data, or its default (\<open>None\<close>: the field is
  required).  The result is the errors and, when there are none, the validated value.
\<close>

definition validate_field ::
  "('w arg \<Rightarrow> 'a option) \<Rightarrow> 'a option \<Rightarrow> string \<Rightarrow> 'w kwargs \<Rightarrow> error_item list \<times> 'a option" where
  "validate_field conv dflt name data =
     (case map_of data name of
        None \<Rightarrow> (case dflt of None \<Rightarrow> ([field_required name], None) | Some d \<Rightarrow> ([], Some d))
      | Some v \<Rightarrow> (case conv v of None \<Rightarrow> ([type_error name], None) | Some x \<Rightarrow> ([], Some x)))"

text \<open>\<^verbatim>\<open>extra = Extra.forbid\<close>: every keyword that names no field is an error.\<close>

definition extra_errors :: "string list \<Rightarrow> 'w kwargs \<Rightarrow> error_item list" where
  "extra_errors names data =
     map extra_forbidden (filter (\<lambda>n. n \<notin> set names) (map fst data))"

definition BaseRetrievalQA_fields :: "string list" where
  "BaseRetrievalQA_fields =
     [''combine_documents_chain'', ''input_key'', ''output_key'', ''return_source_documents'']"

definition RetrievalQA_fields :: "string list" where
  "RetrievalQA_fields = BaseRetrievalQA_fields @ [''retriever'']"

definition VectorDBQA_fields :: "string list" where
  "VectorDBQA_fields =
     BaseRetrievalQA_fields @ [''vectorstore'', ''k'', ''search_type'', ''search_kwargs'']"

text \<open>
  \<^verbatim>\<open>VectorDBQA.validate_search_type\<close>, a root validator: it runs after the fields,
  also when some of them failed, on the dictionary of the fields that validated.  Only
  the entry \<^verbatim>\<open>search_type\<close> is read: \<open>None\<close> when the dictionary has no such key.
\<close>

definition validate_search_type :: "string option \<Rightarrow> py_error + string option" where
  "validate_search_type values =
     (case values of
        Some search_type' \<Rightarrow>
          if search_type' \<notin> set [''similarity'', ''mmr'']
          then Inl (ValueError (''search_type of '' @ search_type' @ '' not allowed.''))
          else Inr values
      | None \<Rightarrow> Inr values)"

definition root_errors :: "py_error + 'a \<Rightarrow> error_item list" where
  "root_errors r = (case r of Inl (ValueError msg) \<Rightarrow> [root_error msg] | _ \<Rightarrow> [])"

datatype cls = RetrievalQA_cls | VectorDBQA_cls

datatype 'w retrieval_chain = RetrievalQA_obj "'w RetrievalQA" | VectorDBQA_obj "'w VectorDBQA"

definition construct_RetrievalQA :: "'w framework \<Rightarrow> 'w kwargs \<Rightarrow> py_error + 'w RetrievalQA" where
  "construct_RetrievalQA F data =
     (let (e1, c) = validate_field (as_chain F) None ''combine_documents_chain'' data;
          (e2, ik) = validate_field (as_str F) (Some ''query'') ''input_key'' data;
          (e3, ok) = validate_field (as_str F) (Some ''result'') ''output_key'' data;
          (e4, rsd) = validate_field (as_bool F) (Some False) ''return_source_documents'' data;
          (e5, r) = validate_field (as_retriever F) None ''retriever'' data;
          errors = chain_errors F data @ e1 @ e2 @ e3 @ e4 @ e5
                     @ extra_errors (chain_fields F @ RetrievalQA_fields) data
      in case (c, ik, ok, rsd, r) of
           (Some c', Some ik', Some ok', Some rsd', Some r') \<Rightarrow>
             if errors = []
             then Inr \<lparr>combine_documents_chain = c', input_key = ik', output_key = ok',
                       return_source_documents = rsd', retriever = r'\<rparr>
             else Inl (ValidationError errors)
         | _ \<Rightarrow> Inl (ValidationError errors))"

definition construct_VectorDBQA :: "'w framework \<Rightarrow> 'w kwargs \<Rightarrow> py_error + 'w VectorDBQA" where
  "construct_VectorDBQA F data =
     (let (e1, c) = validate_field (as_chain F) None ''combine_documents_chain'' data;
          (e2, ik) = validate_field (as_str F) (Some ''query'') ''input_key'' data;
          (e3, ok) = validate_field (as_str F) (Some ''result'') ''output_key'' data;
          (e4, rsd) = validate_field (as_bool F) (Some False) ''return_source_documents'' data;
          (e5, vs) = validate_field (as_store F) None ''vectorstore'' data;
          (e6, k') = validate_field (as_int F) (Some 4) ''k'' data;
          (e7, st) = validate_field (as_str F) (Some ''similarity'') ''search_type'' data;
          (e8, sk) = validate_field (as_dict F) (Some []) ''search_kwargs'' data;
          errors = chain_errors F data @ e1 @ e2 @ e3 @ e4 @ e5 @ e6 @ e7 @ e8
                     @ extra_errors (chain_fields F @ VectorDBQA_fields) data
                     @ root_errors (validate_search_type st)
      in case (c, ik, ok, rsd, vs, k', st, sk) of
           (Some c', Some ik', Some ok', Some rsd', Some vs', Some k'', Some st', Some sk') \<Rightarrow>
             if errors = []
             then Inr \<lparr>combine_documents_chain = c', input_key = ik', output_key = ok',
                       return_source_documents = rsd', vectorstore = vs', k = k'',
                       search_type = st', search_kwargs = sk'\<rparr>
             else Inl (ValidationError errors)
         | _ \<Rightarrow> Inl (ValidationError errors))"

fun construct :: "'w framework \<Rightarrow> cls \<Rightarrow> 'w kwargs \<Rightarrow> py_error + 'w retrieval_chain" where
  "construct F RetrievalQA_cls data = map_sum id RetrievalQA_obj (construct_RetrievalQA F data)"
| "construct F VectorDBQA_cls data = map_sum id VectorDBQA_obj (construct_VectorDBQA F data)"

fun fields_of :: "'w framework \<Rightarrow> cls \<Rightarrow> string list" where
  "fields_of F RetrievalQA_cls = chain_fields F @ RetrievalQA_fields"
| "fields_of F VectorDBQA_cls = chain_fields F @ VectorDBQA_fields"

fun chain_of :: "'w retrieval_chain \<Rightarrow> 'w combine_chain" where
  "chain_of (RetrievalQA_obj self) = combine_documents_chain self"
| "chain_of (VectorDBQA_obj self) = combine_documents_chain self"

text \<open>
  \<^verbatim>\<open>BaseRetrievalQA.from_llm\<close>, lines 62 to 71: the chain it builds before it calls
  the class.  \<^verbatim>\<open>prompt or PROMPT_SELECTOR.get_prompt(llm)\<close> asks for the default only
  when no prompt was given.  Each of the four calls may raise, and then nothing after it
  runs.
\<close>

definition from_llm_combine_documents_chain ::
  "'w framework \<Rightarrow> (string \<Rightarrow> ('w, string) capability) \<Rightarrow> PromptTemplate option
     \<Rightarrow> py_error + 'w StuffDocumentsChain" where
  "from_llm_combine_documents_chain F llm' prompt' =
     (case (case prompt' of Some p \<Rightarrow> Inr p | None \<Rightarrow> get_prompt F llm') of
        Inl e \<Rightarrow> Inl e
      | Inr prompt'' \<Rightarrow>
          (case LLMChain_raises F llm' prompt'' of
             Some e \<Rightarrow> Inl e
           | None \<Rightarrow>
               (case PromptTemplate_raises F [''page_content'']
                       (''Context:'' @ [CHR 0x0A] @ ''{page_content}'') of
                  Some e \<Rightarrow> Inl e
                | None \<Rightarrow>
                    (let llm_chain' = \<lparr>llm = llm', prompt = prompt''\<rparr>;
                         document_prompt' =
                           \<lparr>input_variables = [''page_content''],
                            template = ''Context:'' @ [CHR 0x0A] @ ''{page_content}''\<rparr>
                     in case StuffDocumentsChain_raises F llm_chain' ''context'' document_prompt' of
                          Some e \<Rightarrow> Inl e
                        | None \<Rightarrow>
                            Inr \<lparr>llm_chain = llm_chain',
                                 document_variable_name = ''context'',
                                 document_prompt = document_prompt'\<rparr>))))"

text \<open>
  \<^verbatim>\<open>BaseRetrievalQA.from_llm\<close>: the chain above, then
  \<^verbatim>\<open>cls(combine_documents_chain=combine_documents_chain, **kwargs)\<close>.
\<close>

definition from_llm ::
  "'w framework \<Rightarrow> cls \<Rightarrow> (string \<Rightarrow> ('w, string) capability) \<Rightarrow> PromptTemplate option \<Rightarrow> 'w kwargs
     \<Rightarrow> py_error + 'w retrieval_chain" where
  "from_llm F cls' llm' prompt' kwargs =
     (case from_llm_combine_documents_chain F llm' prompt' of
        Inl e \<Rightarrow> Inl e
      | Inr combine_documents_chain' \<Rightarrow>
          if duplicate_keyword ''combine_documents_chain'' kwargs
          then Inl (TypeError_multiple_values ''combine_documents_chain'')
          else construct F cls'
                 ((''combine_documents_chain'', Chain_obj (Stuff combine_documents_chain'))
                    # kwargs))"

text \<open>\<^verbatim>\<open>BaseRetrievalQA.from_chain_type\<close>.\<close>

definition from_chain_type ::
  "'w framework \<Rightarrow> cls \<Rightarrow> (string \<Rightarrow> ('w, string) capability) \<Rightarrow> string \<Rightarrow> pydict option \<Rightarrow> 'w kwargs
     \<Rightarrow> py_error + 'w retrieval_chain" where
  "from_chain_type F cls' llm' chain_type chain_type_kwargs kwargs =
     (let chain_type_kwargs' = (case chain_type_kwargs of Some d \<Rightarrow> d | None \<Rightarrow> [])
      in if duplicate_keyword ''chain_type'' chain_type_kwargs'
         then Inl (TypeError_multiple_values ''chain_type'')
         else case load_qa_chain F llm' chain_type chain_type_kwargs' of
                Inl e \<Rightarrow> Inl e
              | Inr combine_documents_chain' \<Rightarrow>
                  if duplicate_keyword ''combine_documents_chain'' kwargs
                  then Inl (TypeError_multiple_values ''combine_documents_chain'')
                  else construct F cls'
                         ((''combine_documents_chain'', Chain_obj combine_documents_chain')
                            # kwargs))"

subsection \<open>Concrete collaborators\<close>

text \<open>
  Stub collaborators over a world that counts the calls it has served, and concrete
  chains built on them; the theorems below are instantiated on these.
\<close>

definition doc_paris :: Document where
  "doc_paris = \<lparr>page_content = ''Paris is the capital of France.'', metadata = []\<rparr>"

definition doc_rome :: Document where
  "doc_rome = \<lparr>page_content = ''Rome is the capital of Italy.'', metadata = []\<rparr>"

definition stub_store :: "nat VectorStore" where
  "stub_store =
     \<lparr>similarity_search = (\<lambda>q n kw w. (Inr [doc_paris, doc_rome], Suc w)),
      max_marginal_relevance_search = (\<lambda>q n kw w. (Inr [doc_rome], Suc w))\<rparr>"

definition stub_retriever :: "nat BaseRetriever" where
  "stub_retriever = \<lparr>get_relevant_texts = (\<lambda>q w. (Inr [doc_paris], Suc w))\<rparr>"

definition stub_chain :: "nat combine_chain" where
  "stub_chain = Other_chain (\<lambda>docs q w. (Inr (''42'', []), Suc w))"

definition echo_llm :: "string \<Rightarrow> (nat, string) capability" where
  "echo_llm text w = (Inr text, Suc w)"

definition qa_prompt :: PromptTemplate where
  "qa_prompt = \<lparr>input_variables = [''context'', ''question''],
                 template = ''{context}'' @ [CHR 0x0A] @ ''Question: {question}''\<rparr>"

definition stub_framework :: "nat framework" where
  "stub_framework =
     \<lparr>chain_fields = [''memory'', ''callback_manager'', ''verbose''],
      chain_errors = (\<lambda>data. []),
      convert = (\<lambda>t v. None),
      get_prompt = (\<lambda>m. Inr qa_prompt),
      LLMChain_raises = (\<lambda>m p. None),
      PromptTemplate_raises = (\<lambda>vars t. None),
      StuffDocumentsChain_raises = (\<lambda>c name p. None),
      load_qa_chain = (\<lambda>m chain_type kw. Inr stub_chain)\<rparr>"

definition s0 :: "nat state" where
  "s0 = \<lparr>calls = [], world = 0\<rparr>"

definition vdb :: "string \<Rightarrow> int \<Rightarrow> pydict \<Rightarrow> nat VectorDBQA" where
  "vdb st n kw =
     \<lparr>combine_documents_chain = stub_chain, input_key = ''query'', output_key = ''result'',
      return_source_documents = False, vectorstore = stub_store, k = n, search_type = st,
      search_kwargs = kw\<rparr>"

definition qa :: "string \<Rightarrow> bool \<Rightarrow> nat RetrievalQA" where
  "qa ok rsd =
     \<lparr>combine_documents_chain = stub_chain, input_key = ''query'', output_key = ok,
      return_source_documents = rsd, retriever = stub_retriever\<rparr>"

definition echo_stuff :: "nat StuffDocumentsChain" where
  "echo_stuff =
     \<lparr>llm_chain = \<lparr>llm = echo_llm, prompt = qa_prompt\<rparr>,
      document_variable_name = ''context'',
      document_prompt = \<lparr>input_variables = [''page_content''],
                          template = ''Context:'' @ [CHR 0x0A] @ ''{page_content}''\<rparr>\<rparr>"

definition echo_qa :: "nat RetrievalQA" where
  "echo_qa =
     \<lparr>combine_documents_chain = Stuff echo_stuff, input_key = ''query'',
      output_key = ''result'', return_source_documents = False, retriever = stub_retriever\<rparr>"

section \<open>Retrieval\<close>

text \<open>Every call of a collaborator extends the log by exactly its own entry.\<close>

lemma invoke_log: "calls (snd (invoke c m s)) = calls s @ [c]"
  by (simp add: invoke_def split: prod.splits)

lemma invoke_not_silent: "invoke c m s \<noteq> (r, s)"
proof
  assume "invoke c m s = (r, s)"
  then have "calls (snd (invoke c m s)) = calls s" by simp
  then show False by (simp add: invoke_log)
qed

text \<open>
  C4.  \<^verbatim>\<open>RetrievalQA._get_docs\<close> has no branch: for every question it calls the
  retriever's \<^verbatim>\<open>get_relevant_texts\<close> once, with the question as the only argument,
  and returns what the retriever returned (or raised), unchanged.
\<close>

theorem RetrievalQA_get_docs_delegates:
  "RetrievalQA_get_docs self q s =
     (fst (get_relevant_texts (retriever self) q (world s)),
      \<lparr>calls = calls s @ [Call_get_relevant_texts q],
       world = snd (get_relevant_texts (retriever self) q (world s))\<rparr>)"
  by (simp add: RetrievalQA_get_docs_def invoke_def split: prod.splits)

text \<open>
  C1, as the code has it.  When \<^verbatim>\<open>search_kwargs\<close> has no entry named \<^verbatim>\<open>k\<close>, a
  \<^verbatim>\<open>VectorDBQA\<close> with search type \<^verbatim>\<open>similarity\<close> makes exactly one call, to
  \<^verbatim>\<open>similarity_search\<close> with the question, \<^verbatim>\<open>k\<close> and the extra parameters, one
  with search type \<^verbatim>\<open>mmr\<close> makes exactly one call, to
  \<^verbatim>\<open>max_marginal_relevance_search\<close> with the same arguments, and in both cases the
  result is the backend's, unchanged and in the backend's order.  When \<^verbatim>\<open>search_kwargs\<close>
  has an entry named \<^verbatim>\<open>k\<close>, either search type raises \<^verbatim>\<open>TypeError\<close> for the
  keyword given twice and calls nothing.
\<close>

theorem VectorDBQA_get_docs_routes:
  "(\<not> duplicate_keyword ''k'' (search_kwargs self) \<and> search_type self = ''similarity'' \<longrightarrow>
      VectorDBQA_get_docs self q s =
        (fst (similarity_search (vectorstore self) q (k self) (search_kwargs self) (world s)),
         \<lparr>calls = calls s @ [Call_similarity_search q (k self) (search_kwargs self)],
          world = snd (similarity_search (vectorstore self) q (k self) (search_kwargs self)
                         (world s))\<rparr>))
   \<and> (\<not> duplicate_keyword ''k'' (search_kwargs self) \<and> search_type self = ''mmr'' \<longrightarrow>
      VectorDBQA_get_docs self q s =
        (fst (max_marginal_relevance_search (vectorstore self) q (k self)
                (search_kwargs self) (world s)),
         \<lparr>calls = calls s @ [Call_max_marginal_relevance_search q (k self) (search_kwargs self)],
          world = snd (max_marginal_relevance_search (vectorstore self) q (k self)
                         (search_kwargs self) (world s))\<rparr>))
   \<and> (duplicate_keyword ''k'' (search_kwargs self)
       \<and> (search_type self = ''similarity'' \<or> search_type self = ''mmr'') \<longrightarrow>
      VectorDBQA_get_docs self q s = (Inl (TypeError_multiple_values ''k''), s))"
  by (auto simp add: VectorDBQA_get_docs_def invoke_def split: prod.splits)

text \<open>
  C1 on the stub store: the routing for both search types, and the \<^verbatim>\<open>TypeError\<close>
  for \<^verbatim>\<open>mmr\<close> with an entry named \<^verbatim>\<open>k\<close>.
\<close>

theorem VectorDBQA_get_docs_routes_witness:
  "\<not> duplicate_keyword ''k'' [(''filter'', VStr ''x'')]
   \<and> VectorDBQA_get_docs (vdb ''similarity'' 2 [(''filter'', VStr ''x'')]) ''q'' s0 =
       (Inr [doc_paris, doc_rome],
        \<lparr>calls = [Call_similarity_search ''q'' 2 [(''filter'', VStr ''x'')]], world = 1\<rparr>)
   \<and> VectorDBQA_get_docs (vdb ''mmr'' 2 [(''filter'', VStr ''x'')]) ''q'' s0 =
       (Inr [doc_rome],
        \<lparr>calls = [Call_max_marginal_relevance_search ''q'' 2 [(''filter'', VStr ''x'')]],
         world = 1\<rparr>)
   \<and> duplicate_keyword ''k'' [(''filter'', VStr ''x''), (''k'', VInt 9)]
   \<and> VectorDBQA_get_docs (vdb ''mmr'' 2 [(''filter'', VStr ''x''), (''k'', VInt 9)]) ''q'' s0 =
       (Inl (TypeError_multiple_values ''k''), s0)"
  using VectorDBQA_get_docs_routes [of "vdb ''similarity'' 2 [(''filter'', VStr ''x'')]" "''q''" s0]
        VectorDBQA_get_docs_routes [of "vdb ''mmr'' 2 [(''filter'', VStr ''x'')]" "''q''" s0]
        VectorDBQA_get_docs_routes
          [of "vdb ''mmr'' 2 [(''filter'', VStr ''x''), (''k'', VInt 9)]" "''q''" s0]
  by (simp add: vdb_def duplicate_keyword_def stub_store_def s0_def)

text \<open>
  C1 as stated fails: with search type \<^verbatim>\<open>similarity\<close> and
  \<^verbatim>\<open>search_kwargs = {"k": 7}\<close> the call site raises \<^verbatim>\<open>TypeError\<close>, and the log
  stays empty: the similarity search is not called.
\<close>

theorem VectorDBQA_get_docs_duplicate_k:
  "VectorDBQA_get_docs (vdb ''similarity'' 4 [(''k'', VInt 7)]) ''q'' s0 =
     (Inl (TypeError_multiple_values ''k''), s0) \<and> calls s0 = []"
  by (simp add: VectorDBQA_get_docs_def vdb_def duplicate_keyword_def s0_def)

text \<open>
  C7.  With a search type other than \<^verbatim>\<open>similarity\<close> and \<^verbatim>\<open>mmr\<close>,
  \<^verbatim>\<open>VectorDBQA._get_docs\<close> raises \<^verbatim>\<open>ValueError\<close> with the message
  \<^verbatim>\<open>search_type of <the search type> not allowed.\<close> and calls nothing.  With either
  recognised search type that outcome (this error, nothing called) never occurs.
\<close>

theorem VectorDBQA_get_docs_invalid_mode:
  "(search_type self \<noteq> ''similarity'' \<and> search_type self \<noteq> ''mmr'' \<longrightarrow>
      VectorDBQA_get_docs self q s =
        (Inl (ValueError (''search_type of '' @ search_type self @ '' not allowed.'')), s))
   \<and> (search_type self = ''similarity'' \<or> search_type self = ''mmr'' \<longrightarrow>
      VectorDBQA_get_docs self q s \<noteq>
        (Inl (ValueError (''search_type of '' @ search_type self @ '' not allowed.'')), s))"
  by (auto simp add: VectorDBQA_get_docs_def invoke_not_silent)

text \<open>C7 on a chain whose search type is \<^verbatim>\<open>bogus\<close>, and on one with \<^verbatim>\<open>mmr\<close>.\<close>

theorem VectorDBQA_get_docs_invalid_mode_witness:
  "VectorDBQA_get_docs (vdb ''bogus'' 4 []) ''q'' s0 =
     (Inl (ValueError ''search_type of bogus not allowed.''), s0)
   \<and> VectorDBQA_get_docs (vdb ''mmr'' 4 []) ''q'' s0 \<noteq>
     (Inl (ValueError ''search_type of mmr not allowed.''), s0)"
  using VectorDBQA_get_docs_invalid_mode [of "vdb ''bogus'' 4 []" "''q''" s0]
        VectorDBQA_get_docs_invalid_mode [of "vdb ''mmr'' 4 []" "''q''" s0]
  by (simp add: vdb_def)

section \<open>Answering\<close>

text \<open>
  A call that returns went through all three steps: the question was in the inputs, the
  documents were fetched, the chain combined them, and the result is the dictionary
  display of \<^verbatim>\<open>_call\<close>.
\<close>

lemma BaseRetrievalQA_call_Inr:
  assumes "BaseRetrievalQA_call get_docs self inputs s = (Inr result, s')"
  shows "\<exists>question docs answer aux s1.
           map_of inputs (input_key self) = Some question
         \<and> get_docs self question s = (Inr docs, s1)
         \<and> combine_docs (combine_documents_chain self) docs question s1 = (Inr (answer, aux), s')
         \<and> result =
             (if return_source_documents self
              then AList.update ''source_documents'' (Source_documents docs)
                     (AList.update (output_key self) (Answer answer) [])
              else AList.update (output_key self) (Answer answer) [])"
  using assms
  by (auto simp add: BaseRetrievalQA_call_def
           split: option.splits prod.splits sum.splits if_splits)

text \<open>A run of the stub \<^verbatim>\<open>RetrievalQA\<close>, for any output key and either flag.\<close>

lemma RetrievalQA_call_qa:
  "RetrievalQA_call (qa ok rsd) [(''query'', ''q'')] s0 =
     (Inr (if rsd
           then AList.update ''source_documents'' (Source_documents [doc_paris])
                  [(ok, Answer ''42'')]
           else [(ok, Answer ''42'')]),
      \<lparr>calls = [Call_get_relevant_texts ''q'', Call_combine_docs [doc_paris] ''q''], world = 2\<rparr>)"
  by (simp add: RetrievalQA_call_def BaseRetrievalQA_call_def RetrievalQA_get_docs_def
        invoke_def qa_def s0_def stub_retriever_def stub_chain_def)

text \<open>
  C5.  When the inputs have no entry under the input key, \<^verbatim>\<open>_call\<close> raises
  \<^verbatim>\<open>KeyError\<close> for that key, whatever the retrieval strategy is, and leaves the
  state as it was: nothing is added to the log, so neither \<^verbatim>\<open>_get_docs\<close> nor
  \<^verbatim>\<open>combine_docs\<close> was called.
\<close>

theorem call_missing_input:
  assumes "input_key self \<notin> set (map fst inputs)"
  shows "BaseRetrievalQA_call get_docs self inputs s = (Inl (KeyError (input_key self)), s)"
proof -
  from assms have "map_of inputs (input_key self) = None"
    by (simp add: map_of_eq_None_iff)
  then show ?thesis by (simp add: BaseRetrievalQA_call_def)
qed

text \<open>C5 on the stub \<^verbatim>\<open>RetrievalQA\<close>, called with \<^verbatim>\<open>{"question": "q"}\<close>.\<close>

theorem call_missing_input_witness:
  "input_key (qa ''result'' True) \<notin> set (map fst [(''question'', ''q'')])
   \<and> BaseRetrievalQA_call RetrievalQA_get_docs (qa ''result'' True) [(''question'', ''q'')] s0 =
       (Inl (KeyError ''query''), s0)
   \<and> calls s0 = []"
  using call_missing_input [of "qa ''result'' True" "[(''question'', ''q'')]" RetrievalQA_get_docs s0]
  by (simp add: qa_def s0_def)

text \<open>
  C9.  For every chain and every call that returns, the set of keys of the returned
  dictionary is the set of the declared \<^verbatim>\<open>output_keys\<close>.
\<close>

theorem call_keys_are_output_keys:
  assumes "BaseRetrievalQA_call get_docs self inputs s = (Inr result, s')"
  shows "set (map fst result) = set (output_keys self)"
proof -
  from BaseRetrievalQA_call_Inr [OF assms] obtain docs answer where
    "result =
       (if return_source_documents self
        then AList.update ''source_documents'' (Source_documents docs)
               (AList.update (output_key self) (Answer answer) [])
        else AList.update (output_key self) (Answer answer) [])"
    by blast
  then show ?thesis by (auto simp add: output_keys_def)
qed

text \<open>C9 on a run of the stub \<^verbatim>\<open>RetrievalQA\<close> that returns its source documents.\<close>

theorem call_keys_are_output_keys_witness:
  "RetrievalQA_call (qa ''result'' True) [(''query'', ''q'')] s0 =
     (Inr [(''result'', Answer ''42''), (''source_documents'', Source_documents [doc_paris])],
      \<lparr>calls = [Call_get_relevant_texts ''q'', Call_combine_docs [doc_paris] ''q''], world = 2\<rparr>)
   \<and> set (map fst [(''result'', Answer ''42''),
                    (''source_documents'', Source_documents [doc_paris])]) =
       set (output_keys (qa ''result'' True))"
proof -
  have run: "BaseRetrievalQA_call RetrievalQA_get_docs (qa ''result'' True) [(''query'', ''q'')] s0 =
     (Inr [(''result'', Answer ''42''), (''source_documents'', Source_documents [doc_paris])],
      \<lparr>calls = [Call_get_relevant_texts ''q'', Call_combine_docs [doc_paris] ''q''], world = 2\<rparr>)"
    using RetrievalQA_call_qa [of "''result''" True] by (simp add: RetrievalQA_call_def)
  from call_keys_are_output_keys [OF run] run show ?thesis
    by (simp add: RetrievalQA_call_def)
qed

text \<open>
  The shape of the result when the two keys differ: one key without the source
  documents, two keys with them, the second holding the documents that \<^verbatim>\<open>_get_docs\<close>
  returned, in their order.
\<close>

lemma call_result_keys:
  assumes "BaseRetrievalQA_call get_docs self inputs s = (Inr result, s')"
  shows "\<not> return_source_documents self \<Longrightarrow>
           \<exists>answer. result = [(output_key self, Answer answer)]"
    and "return_source_documents self \<Longrightarrow> output_key self \<noteq> ''source_documents'' \<Longrightarrow>
           \<exists>question answer docs s1.
              get_docs self question s = (Inr docs, s1)
            \<and> result = [(output_key self, Answer answer),
                         (''source_documents'', Source_documents docs)]"
  using BaseRetrievalQA_call_Inr [OF assms] by auto

text \<open>
  C2 at \<^verbatim>\<open>output_key = "source_documents"\<close> with \<^verbatim>\<open>return_source_documents\<close> set:
  the call of the stub \<^verbatim>\<open>RetrievalQA\<close> returns a dictionary with the single key
  \<^verbatim>\<open>source_documents\<close>, holding the documents; the answer \<^verbatim>\<open>42\<close> of the chain is
  overwritten.
\<close>

theorem call_output_key_collision:
  "RetrievalQA_call (qa ''source_documents'' True) [(''query'', ''q'')] s0 =
     (Inr [(''source_documents'', Source_documents [doc_paris])],
      \<lparr>calls = [Call_get_relevant_texts ''q'', Call_combine_docs [doc_paris] ''q''], world = 2\<rparr>)"
  using RetrievalQA_call_qa [of "''source_documents''" True] by simp

section \<open>Construction\<close>

lemma extra_errors_member:
  "name \<in> set (map fst data) \<Longrightarrow> name \<notin> set names \<Longrightarrow>
   extra_forbidden name \<in> set (extra_errors names data)"
  by (auto simp add: extra_errors_def)

lemma validate_search_type_bogus:
  "st \<notin> set [''similarity'', ''mmr''] \<Longrightarrow>
   root_errors (validate_search_type (Some st)) =
     [root_error (''search_type of '' @ st @ '' not allowed.'')]"
  by (simp add: validate_search_type_def root_errors_def)

text \<open>An error of the extra-field check or of the root validator makes construction fail.\<close>

lemma construct_VectorDBQA_Inl:
  assumes "x \<in> set (extra_errors (chain_fields F @ VectorDBQA_fields) data
                     @ root_errors (validate_search_type
                         (snd (validate_field (as_str F) (Some ''similarity'') ''search_type'' data))))"
  shows "\<exists>errs. construct_VectorDBQA F data = Inl (ValidationError errs) \<and> x \<in> set errs"
  using assms unfolding construct_VectorDBQA_def Let_def split_beta
  by (auto split: option.splits)

lemma construct_RetrievalQA_Inl:
  assumes "x \<in> set (extra_errors (chain_fields F @ RetrievalQA_fields) data)"
  shows "\<exists>errs. construct_RetrievalQA F data = Inl (ValidationError errs) \<and> x \<in> set errs"
  using assms unfolding construct_RetrievalQA_def Let_def split_beta
  by (auto split: option.splits)

text \<open>The fields of a constructed object are the validated values.\<close>

lemma construct_VectorDBQA_Inr:
  assumes "construct_VectorDBQA F data = Inr self"
  shows "snd (validate_field (as_chain F) None ''combine_documents_chain'' data)
           = Some (combine_documents_chain self)
       \<and> snd (validate_field (as_int F) (Some 4) ''k'' data) = Some (k self)
       \<and> snd (validate_field (as_str F) (Some ''similarity'') ''search_type'' data)
           = Some (search_type self)"
  using assms unfolding construct_VectorDBQA_def Let_def split_beta
  by (simp split: option.splits if_splits) auto

lemma construct_RetrievalQA_Inr:
  assumes "construct_RetrievalQA F data = Inr self"
  shows "snd (validate_field (as_chain F) None ''combine_documents_chain'' data)
           = Some (combine_documents_chain self)"
  using assms unfolding construct_RetrievalQA_def Let_def split_beta
  by (simp split: option.splits if_splits) auto

lemma construct_chain_of:
  assumes "construct F c data = Inr obj"
      and "map_of data ''combine_documents_chain'' = Some (Chain_obj ch)"
  shows "chain_of obj = ch"
proof -
  from assms(2)
  have given: "snd (validate_field (as_chain F) None ''combine_documents_chain'' data) = Some ch"
    by (simp add: validate_field_def)
  show ?thesis
  proof (cases c)
    case RetrievalQA_cls
    with assms(1) obtain self
      where "construct_RetrievalQA F data = Inr self" "obj = RetrievalQA_obj self"
      by (cases "construct_RetrievalQA F data") auto
    with construct_RetrievalQA_Inr [of F data self] given show ?thesis by simp
  next
    case VectorDBQA_cls
    with assms(1) obtain self
      where "construct_VectorDBQA F data = Inr self" "obj = VectorDBQA_obj self"
      by (cases "construct_VectorDBQA F data") auto
    with construct_VectorDBQA_Inr [of F data self] given show ?thesis by simp
  qed
qed

lemma construct_extra:
  assumes "name \<in> set (map fst data)" "name \<notin> set (fields_of F c)"
  shows "\<exists>errs. construct F c data = Inl (ValidationError errs) \<and> extra_forbidden name \<in> set errs"
proof (cases c)
  case RetrievalQA_cls
  with assms
  have "extra_forbidden name \<in> set (extra_errors (chain_fields F @ RetrievalQA_fields) data)"
    by (simp add: extra_errors_member)
  from construct_RetrievalQA_Inl [OF this] RetrievalQA_cls show ?thesis by auto
next
  case VectorDBQA_cls
  with assms
  have "extra_forbidden name \<in> set (extra_errors (chain_fields F @ VectorDBQA_fields) data)"
    by (simp add: extra_errors_member)
  then have "extra_forbidden name \<in> set (extra_errors (chain_fields F @ VectorDBQA_fields) data
                     @ root_errors (validate_search_type
                         (snd (validate_field (as_str F) (Some ''similarity'') ''search_type'' data))))"
    by simp
  from construct_VectorDBQA_Inl [OF this] VectorDBQA_cls show ?thesis by auto
qed


text \<open>
  C3.  Whatever else the keyword dictionary holds, a \<^verbatim>\<open>search_type\<close> string other
  than \<^verbatim>\<open>similarity\<close> and \<^verbatim>\<open>mmr\<close> makes the construction of a \<^verbatim>\<open>VectorDBQA\<close>
  fail with a \<^verbatim>\<open>ValidationError\<close> that carries the validator's message: no object
  exists on which \<^verbatim>\<open>_get_docs\<close> could be called.  With either recognised value, the
  required chain and vector store, and inherited fields that validate, construction
  returns the object.
\<close>

theorem construct_search_type_validated:
  "(map_of data ''search_type'' = Some (Val (VStr st)) \<and> st \<notin> set [''similarity'', ''mmr'']
      \<longrightarrow> (\<exists>errs. construct F VectorDBQA_cls data = Inl (ValidationError errs)
                  \<and> root_error (''search_type of '' @ st @ '' not allowed.'') \<in> set errs))
   \<and> (st \<in> set [''similarity'', ''mmr'']
       \<and> chain_errors F [(''combine_documents_chain'', Chain_obj c), (''vectorstore'', Store_obj vs),
                          (''search_type'', Val (VStr st))] = []
      \<longrightarrow> construct F VectorDBQA_cls
            [(''combine_documents_chain'', Chain_obj c), (''vectorstore'', Store_obj vs),
             (''search_type'', Val (VStr st))] =
          Inr (VectorDBQA_obj
                 \<lparr>combine_documents_chain = c, input_key = ''query'', output_key = ''result'',
                  return_source_documents = False, vectorstore = vs, k = 4,
                  search_type = st, search_kwargs = []\<rparr>))"
proof (intro conjI impI)
  assume bad: "map_of data ''search_type'' = Some (Val (VStr st))
                 \<and> st \<notin> set [''similarity'', ''mmr'']"
  then have "snd (validate_field (as_str F) (Some ''similarity'') ''search_type'' data) = Some st"
    by (simp add: validate_field_def)
  with bad have "root_error (''search_type of '' @ st @ '' not allowed.'')
      \<in> set (extra_errors (chain_fields F @ VectorDBQA_fields) data
              @ root_errors (validate_search_type
                  (snd (validate_field (as_str F) (Some ''similarity'') ''search_type'' data))))"
    by (simp add: validate_search_type_bogus)
  from construct_VectorDBQA_Inl [OF this]
  show "\<exists>errs. construct F VectorDBQA_cls data = Inl (ValidationError errs)
                  \<and> root_error (''search_type of '' @ st @ '' not allowed.'') \<in> set errs"
    by auto
next
  assume good: "st \<in> set [''similarity'', ''mmr'']
       \<and> chain_errors F [(''combine_documents_chain'', Chain_obj c), (''vectorstore'', Store_obj vs),
                          (''search_type'', Val (VStr st))] = []"
  then show "construct F VectorDBQA_cls
            [(''combine_documents_chain'', Chain_obj c), (''vectorstore'', Store_obj vs),
             (''search_type'', Val (VStr st))] =
          Inr (VectorDBQA_obj
                 \<lparr>combine_documents_chain = c, input_key = ''query'', output_key = ''result'',
                  return_source_documents = False, vectorstore = vs, k = 4,
                  search_type = st, search_kwargs = []\<rparr>)"
    by (auto simp add: construct_VectorDBQA_def validate_field_def extra_errors_def
          VectorDBQA_fields_def BaseRetrievalQA_fields_def validate_search_type_def root_errors_def)
qed

text \<open>C3 on the stubs: \<^verbatim>\<open>search_type="bogus"\<close> is refused, \<^verbatim>\<open>"mmr"\<close> is accepted.\<close>

theorem construct_search_type_validated_witness:
  "construct stub_framework VectorDBQA_cls
     [(''combine_documents_chain'', Chain_obj stub_chain), (''vectorstore'', Store_obj stub_store),
      (''search_type'', Val (VStr ''bogus''))] =
     Inl (ValidationError [root_error ''search_type of bogus not allowed.''])
   \<and> construct stub_framework VectorDBQA_cls
     [(''combine_documents_chain'', Chain_obj stub_chain), (''vectorstore'', Store_obj stub_store),
      (''search_type'', Val (VStr ''mmr''))] =
     Inr (VectorDBQA_obj (vdb ''mmr'' 4 []))"
  using construct_search_type_validated
          [of "[(''combine_documents_chain'', Chain_obj stub_chain),
                (''vectorstore'', Store_obj stub_store),
                (''search_type'', Val (VStr ''bogus''))]" "''bogus''" stub_framework]
        construct_search_type_validated
          [of "[]" "''mmr''" stub_framework stub_chain stub_store]
  by (simp add: stub_framework_def vdb_def construct_VectorDBQA_def validate_field_def
        extra_errors_def VectorDBQA_fields_def BaseRetrievalQA_fields_def
        validate_search_type_def root_errors_def)

text \<open>
  C6, as the code has it.  A keyword that names no field of the class (neither one
  declared in this module nor one inherited from \<^verbatim>\<open>Chain\<close>) makes construction fail:
  the constructor, \<^verbatim>\<open>from_llm\<close> and \<^verbatim>\<open>from_chain_type\<close> all raise, and none returns
  an object.  The constructor raises \<^verbatim>\<open>ValidationError\<close> with an extra-field error for
  that keyword.  \<^verbatim>\<open>from_llm\<close> raises what building its chain raised; else
  \<^verbatim>\<open>TypeError\<close> when the keywords also name \<^verbatim>\<open>combine_documents_chain\<close>; else that
  \<^verbatim>\<open>ValidationError\<close>.  \<^verbatim>\<open>from_chain_type\<close> raises \<^verbatim>\<open>TypeError\<close> when the
  chain type keywords name \<^verbatim>\<open>chain_type\<close>; else what \<^verbatim>\<open>load_qa_chain\<close> raised; else
  \<^verbatim>\<open>TypeError\<close> when the keywords also name \<^verbatim>\<open>combine_documents_chain\<close>; else that
  \<^verbatim>\<open>ValidationError\<close>.
\<close>

theorem unknown_field_rejected:
  assumes "name \<in> set (map fst kwargs)" "name \<notin> set (fields_of F c)"
  shows "(\<exists>errs. construct F c kwargs = Inl (ValidationError errs)
                 \<and> extra_forbidden name \<in> set errs)
       \<and> (\<exists>e. from_llm F c m p kwargs = Inl e)
       \<and> (\<exists>e. from_chain_type F c m chain_type chain_type_kwargs kwargs = Inl e)
       \<and> (case from_llm_combine_documents_chain F m p of
             Inl e \<Rightarrow> from_llm F c m p kwargs = Inl e
           | Inr sc \<Rightarrow>
               if duplicate_keyword ''combine_documents_chain'' kwargs
               then from_llm F c m p kwargs =
                      Inl (TypeError_multiple_values ''combine_documents_chain'')
               else \<exists>errs. from_llm F c m p kwargs = Inl (ValidationError errs)
                           \<and> extra_forbidden name \<in> set errs)
       \<and> (if duplicate_keyword ''chain_type''
                (case chain_type_kwargs of Some d \<Rightarrow> d | None \<Rightarrow> [])
           then from_chain_type F c m chain_type chain_type_kwargs kwargs =
                  Inl (TypeError_multiple_values ''chain_type'')
           else case load_qa_chain F m chain_type
                       (case chain_type_kwargs of Some d \<Rightarrow> d | None \<Rightarrow> []) of
                  Inl e \<Rightarrow> from_chain_type F c m chain_type chain_type_kwargs kwargs = Inl e
                | Inr ch \<Rightarrow>
                    if duplicate_keyword ''combine_documents_chain'' kwargs
                    then from_chain_type F c m chain_type chain_type_kwargs kwargs =
                           Inl (TypeError_multiple_values ''combine_documents_chain'')
                    else \<exists>errs. from_chain_type F c m chain_type chain_type_kwargs kwargs =
                                  Inl (ValidationError errs)
                                \<and> extra_forbidden name \<in> set errs)"
proof -
  have longer: "name \<in> set (map fst ((''combine_documents_chain'', v) # kwargs))"
    for v :: "'a arg"
    using assms(1) by simp
  have rejected: "\<exists>errs. construct F c ((''combine_documents_chain'', v) # kwargs)
                           = Inl (ValidationError errs) \<and> extra_forbidden name \<in> set errs"
    for v :: "'a arg"
    using longer assms(2) by (rule construct_extra)
  have direct: "\<exists>errs. construct F c kwargs = Inl (ValidationError errs)
                  \<and> extra_forbidden name \<in> set errs"
    using assms by (rule construct_extra)
  have llm_cases: "case from_llm_combine_documents_chain F m p of
             Inl e \<Rightarrow> from_llm F c m p kwargs = Inl e
           | Inr sc \<Rightarrow>
               if duplicate_keyword ''combine_documents_chain'' kwargs
               then from_llm F c m p kwargs =
                      Inl (TypeError_multiple_values ''combine_documents_chain'')
               else \<exists>errs. from_llm F c m p kwargs = Inl (ValidationError errs)
                           \<and> extra_forbidden name \<in> set errs"
    using rejected by (simp add: from_llm_def split: sum.splits)
  have type_cases: "if duplicate_keyword ''chain_type''
                (case chain_type_kwargs of Some d \<Rightarrow> d | None \<Rightarrow> [])
           then from_chain_type F c m chain_type chain_type_kwargs kwargs =
                  Inl (TypeError_multiple_values ''chain_type'')
           else case load_qa_chain F m chain_type
                       (case chain_type_kwargs of Some d \<Rightarrow> d | None \<Rightarrow> []) of
                  Inl e \<Rightarrow> from_chain_type F c m chain_type chain_type_kwargs kwargs = Inl e
                | Inr ch \<Rightarrow>
                    if duplicate_keyword ''combine_documents_chain'' kwargs
                    then from_chain_type F c m chain_type chain_type_kwargs kwargs =
                           Inl (TypeError_multiple_values ''combine_documents_chain'')
                    else \<exists>errs. from_chain_type F c m chain_type chain_type_kwargs kwargs =
                                  Inl (ValidationError errs)
                                \<and> extra_forbidden name \<in> set errs"
    using rejected by (simp add: from_chain_type_def Let_def split: sum.splits)
  have llm_fails: "\<exists>e. from_llm F c m p kwargs = Inl e"
    using llm_cases by (auto split: sum.splits if_splits)
  have type_fails: "\<exists>e. from_chain_type F c m chain_type chain_type_kwargs kwargs = Inl e"
    using type_cases by (auto split: sum.splits if_splits)
  from direct llm_fails type_fails llm_cases type_cases show ?thesis
    by (intro conjI)
qed

text \<open>C6 on the stubs: the keyword \<^verbatim>\<open>top_k\<close> is no field of \<^verbatim>\<open>RetrievalQA\<close>.\<close>

theorem unknown_field_rejected_witness:
  "''top_k'' \<in> set (map fst [(''retriever'', Retriever_obj stub_retriever), (''top_k'', Val (VInt 3))])
   \<and> ''top_k'' \<notin> set (fields_of stub_framework RetrievalQA_cls)
   \<and> construct stub_framework RetrievalQA_cls
        [(''retriever'', Retriever_obj stub_retriever), (''top_k'', Val (VInt 3))] =
       Inl (ValidationError [field_required ''combine_documents_chain'', extra_forbidden ''top_k''])
   \<and> from_llm stub_framework RetrievalQA_cls echo_llm None
        [(''retriever'', Retriever_obj stub_retriever), (''top_k'', Val (VInt 3))] =
       Inl (ValidationError [extra_forbidden ''top_k''])
   \<and> from_chain_type stub_framework RetrievalQA_cls echo_llm ''stuff'' None
        [(''retriever'', Retriever_obj stub_retriever), (''top_k'', Val (VInt 3))] =
       Inl (ValidationError [extra_forbidden ''top_k''])"
  using unknown_field_rejected
          [of "''top_k''" "[(''retriever'', Retriever_obj stub_retriever), (''top_k'', Val (VInt 3))]"
              stub_framework RetrievalQA_cls echo_llm None "''stuff''" None]
  by (simp add: stub_framework_def from_llm_def from_llm_combine_documents_chain_def
        from_chain_type_def duplicate_keyword_def
        construct_RetrievalQA_def validate_field_def extra_errors_def
        RetrievalQA_fields_def BaseRetrievalQA_fields_def)

text \<open>
  C6 as stated fails: \<^verbatim>\<open>from_llm\<close> with the unknown keyword \<^verbatim>\<open>top_k\<close> and the
  keyword \<^verbatim>\<open>combine_documents_chain\<close> raises \<^verbatim>\<open>TypeError\<close> before the class
  validates anything, not the \<^verbatim>\<open>ValidationError\<close> of the schema check.
\<close>

theorem from_llm_repeated_keyword:
  "''top_k'' \<in> set (map fst [(''combine_documents_chain'', Chain_obj stub_chain),
                              (''retriever'', Retriever_obj stub_retriever),
                              (''top_k'', Val (VInt 3))])
   \<and> ''top_k'' \<notin> set (fields_of stub_framework RetrievalQA_cls)
   \<and> from_llm stub_framework RetrievalQA_cls echo_llm None
        [(''combine_documents_chain'', Chain_obj stub_chain),
         (''retriever'', Retriever_obj stub_retriever), (''top_k'', Val (VInt 3))] =
       Inl (TypeError_multiple_values ''combine_documents_chain'')"
  by (simp add: stub_framework_def from_llm_def from_llm_combine_documents_chain_def
        duplicate_keyword_def RetrievalQA_fields_def BaseRetrievalQA_fields_def)



section \<open>The context of a chain built by \<^verbatim>\<open>from_llm\<close>\<close>

text \<open>What \<^verbatim>\<open>from_llm\<close> returned was constructed around the chain it built.\<close>

lemma from_llm_Inr:
  assumes "from_llm F c m p kwargs = Inr obj"
  shows "\<exists>sc. from_llm_combine_documents_chain F m p = Inr sc
            \<and> construct F c ((''combine_documents_chain'', Chain_obj (Stuff sc)) # kwargs) = Inr obj"
  using assms by (auto simp add: from_llm_def split: sum.splits if_splits)

lemma from_llm_combine_documents_chain_Inr:
  assumes "from_llm_combine_documents_chain F m p = Inr sc"
  shows "llm (llm_chain sc) = m"
    and "document_variable_name sc = ''context''"
    and "document_prompt sc = \<lparr>input_variables = [''page_content''],
                               template = ''Context:'' @ [CHR 0x0A] @ ''{page_content}''\<rparr>"
    and "case p of Some p' \<Rightarrow> prompt (llm_chain sc) = p'
                 | None \<Rightarrow> get_prompt F m = Inr (prompt (llm_chain sc))"
  using assms
  by (auto simp add: from_llm_combine_documents_chain_def Let_def
           split: sum.splits option.splits)

lemma assemble_Context:
  assumes "document_prompt sc = \<lparr>input_variables = [''page_content''],
                                 template = ''Context:'' @ [CHR 0x0A] @ ''{page_content}''\<rparr>"
  shows "assemble sc docs =
           join [CHR 0x0A, CHR 0x0A] (map (\<lambda>d. ''Context:'' @ [CHR 0x0A] @ page_content d) docs)"
  unfolding assemble_def assms by (simp add: format_prompt_def)

lemma combine_docs_Stuff:
  "combine_docs (Stuff sc) docs q s =
     (let text = format_prompt (prompt (llm_chain sc))
                   [(document_variable_name sc, assemble sc docs), (''question'', q)]
      in case llm (llm_chain sc) text (world s) of
           (Inl e, w') \<Rightarrow>
             (Inl e, \<lparr>calls = calls s @ [Call_combine_docs docs q, Call_llm text], world = w'\<rparr>)
         | (Inr answer, w') \<Rightarrow>
             (Inr (answer, []),
              \<lparr>calls = calls s @ [Call_combine_docs docs q, Call_llm text], world = w'\<rparr>))"
  by (simp add: synthesize_def invoke_def Let_def split: prod.splits sum.splits)

text \<open>
  C8.  A chain that \<^verbatim>\<open>from_llm\<close> returns holds the \<^verbatim>\<open>StuffDocumentsChain\<close> built
  there, with the prompt given or else the default one.  Its context is the documents'
  text bodies, each prefixed by \<^verbatim>\<open>Context:\<close> and a newline, in the order received,
  joined by a double newline.  When \<^verbatim>\<open>_call\<close> hands the retrieved documents to
  \<^verbatim>\<open>combine_docs\<close> of that chain, the model is called once, with the prompt formatted
  over exactly that context and the question, and its outcome is returned.  With no
  documents the context is empty and the model is still called once, with the prompt
  over the empty context: assembling raises nothing.
\<close>

theorem from_llm_context:
  assumes "from_llm F c m p kwargs = Inr obj"
  shows "\<exists>sc. from_llm_combine_documents_chain F m p = Inr sc
           \<and> chain_of obj = Stuff sc
           \<and> (case p of Some p' \<Rightarrow> prompt (llm_chain sc) = p'
                       | None \<Rightarrow> get_prompt F m = Inr (prompt (llm_chain sc)))
           \<and> assemble sc docs =
               join [CHR 0x0A, CHR 0x0A]
                 (map (\<lambda>d. ''Context:'' @ [CHR 0x0A] @ page_content d) docs)
           \<and> assemble sc [] = []
           \<and> combine_docs (chain_of obj) docs q s =
               (let text = format_prompt (prompt (llm_chain sc))
                             [(''context'',
                               join [CHR 0x0A, CHR 0x0A]
                                 (map (\<lambda>d. ''Context:'' @ [CHR 0x0A] @ page_content d) docs)),
                              (''question'', q)]
                in case m text (world s) of
                     (Inl e, w') \<Rightarrow>
                       (Inl e,
                        \<lparr>calls = calls s @ [Call_combine_docs docs q, Call_llm text], world = w'\<rparr>)
                   | (Inr answer, w') \<Rightarrow>
                       (Inr (answer, []),
                        \<lparr>calls = calls s @ [Call_combine_docs docs q, Call_llm text], world = w'\<rparr>))
           \<and> combine_docs (chain_of obj) [] q s =
               (let text = format_prompt (prompt (llm_chain sc))
                             [(''context'', []), (''question'', q)]
                in case m text (world s) of
                     (Inl e, w') \<Rightarrow>
                       (Inl e,
                        \<lparr>calls = calls s @ [Call_combine_docs [] q, Call_llm text], world = w'\<rparr>)
                   | (Inr answer, w') \<Rightarrow>
                       (Inr (answer, []),
                        \<lparr>calls = calls s @ [Call_combine_docs [] q, Call_llm text], world = w'\<rparr>))"
proof -
  from from_llm_Inr [OF assms] obtain sc where
    sc: "from_llm_combine_documents_chain F m p = Inr sc" and
    built: "construct F c ((''combine_documents_chain'', Chain_obj (Stuff sc)) # kwargs) = Inr obj"
    by blast
  have chain: "chain_of obj = Stuff sc"
    using built by (rule construct_chain_of) simp
  note parts = from_llm_combine_documents_chain_Inr [OF sc]
  have body: "assemble sc ds =
               join [CHR 0x0A, CHR 0x0A]
                 (map (\<lambda>d. ''Context:'' @ [CHR 0x0A] @ page_content d) ds)" for ds
    using parts(3) by (rule assemble_Context)
  have run: "combine_docs (chain_of obj) ds q s =
               (let text = format_prompt (prompt (llm_chain sc))
                             [(''context'',
                               join [CHR 0x0A, CHR 0x0A]
                                 (map (\<lambda>d. ''Context:'' @ [CHR 0x0A] @ page_content d) ds)),
                              (''question'', q)]
                in case m text (world s) of
                     (Inl e, w') \<Rightarrow>
                       (Inl e,
                        \<lparr>calls = calls s @ [Call_combine_docs ds q, Call_llm text], world = w'\<rparr>)
                   | (Inr answer, w') \<Rightarrow>
                       (Inr (answer, []),
                        \<lparr>calls = calls s @ [Call_combine_docs ds q, Call_llm text], world = w'\<rparr>))"
    for ds
    unfolding chain combine_docs_Stuff parts(1,2) body ..
  have "assemble sc [] = []" by (simp add: assemble_def)
  with sc chain parts(4) body [of docs] run [of docs] run [of "[]"] show ?thesis
    by (intro exI [of _ sc]) simp
qed

text \<open>
  C8 on a \<^verbatim>\<open>RetrievalQA\<close> built by \<^verbatim>\<open>from_llm\<close> over a model that echoes its prompt:
  the chain, the context of two documents and of none, and a whole call, whose answer
  is the prompt with the retrieved document under its header, followed by the question.
\<close>

theorem from_llm_context_witness:
  "from_llm stub_framework RetrievalQA_cls echo_llm None
     [(''retriever'', Retriever_obj stub_retriever)] = Inr (RetrievalQA_obj echo_qa)
   \<and> chain_of (RetrievalQA_obj echo_qa) = Stuff echo_stuff
   \<and> assemble echo_stuff [doc_paris, doc_rome] =
       ''Context:'' @ [CHR 0x0A] @ ''Paris is the capital of France.'' @ [CHR 0x0A, CHR 0x0A]
         @ ''Context:'' @ [CHR 0x0A] @ ''Rome is the capital of Italy.''
   \<and> assemble echo_stuff [] = []
   \<and> combine_docs (Stuff echo_stuff) [] ''Why?'' s0 =
       (Inr ([CHR 0x0A] @ ''Question: Why?'', []),
        \<lparr>calls = [Call_combine_docs [] ''Why?'', Call_llm ([CHR 0x0A] @ ''Question: Why?'')],
         world = 1\<rparr>)
   \<and> RetrievalQA_call echo_qa [(''query'', ''Capital of France?'')] s0 =
       (Inr [(''result'',
              Answer (''Context:'' @ [CHR 0x0A] @ ''Paris is the capital of France.''
                        @ [CHR 0x0A] @ ''Question: Capital of France?''))],
        \<lparr>calls = [Call_get_relevant_texts ''Capital of France?'',
                  Call_combine_docs [doc_paris] ''Capital of France?'',
                  Call_llm (''Context:'' @ [CHR 0x0A] @ ''Paris is the capital of France.''
                              @ [CHR 0x0A] @ ''Question: Capital of France?'')],
         world = 2\<rparr>)"
proof -
  have built: "from_llm stub_framework RetrievalQA_cls echo_llm None
     [(''retriever'', Retriever_obj stub_retriever)] = Inr (RetrievalQA_obj echo_qa)"
    by (simp add: from_llm_def from_llm_combine_documents_chain_def duplicate_keyword_def
          stub_framework_def echo_qa_def echo_stuff_def construct_RetrievalQA_def
          validate_field_def extra_errors_def RetrievalQA_fields_def BaseRetrievalQA_fields_def)
  have chain: "from_llm_combine_documents_chain stub_framework echo_llm None = Inr echo_stuff"
    by (simp add: from_llm_combine_documents_chain_def stub_framework_def echo_stuff_def)
  have run: "RetrievalQA_call echo_qa [(''query'', ''Capital of France?'')] s0 =
       (Inr [(''result'',
              Answer (''Context:'' @ [CHR 0x0A] @ ''Paris is the capital of France.''
                        @ [CHR 0x0A] @ ''Question: Capital of France?''))],
        \<lparr>calls = [Call_get_relevant_texts ''Capital of France?'',
                  Call_combine_docs [doc_paris] ''Capital of France?'',
                  Call_llm (''Context:'' @ [CHR 0x0A] @ ''Paris is the capital of France.''
                              @ [CHR 0x0A] @ ''Question: Capital of France?'')],
         world = 2\<rparr>)"
    by (simp add: RetrievalQA_call_def BaseRetrievalQA_call_def RetrievalQA_get_docs_def
          invoke_def echo_qa_def echo_stuff_def stub_retriever_def s0_def synthesize_def
          assemble_def format_prompt_def qa_prompt_def echo_llm_def doc_paris_def Let_def)
  from from_llm_context [OF built, of "[doc_paris, doc_rome]" "''Why?''" s0] built chain run
  show ?thesis
    by (simp add: echo_qa_def echo_stuff_def qa_prompt_def format_prompt_def echo_llm_def
          s0_def doc_paris_def doc_rome_def Let_def)
qed

end
